theory Spec2Isabelle
  imports Main
begin

section \<open>The Protractor builder of \<^verbatim>\<open>build_angular/src/protractor/index.ts\<close>\<close>

text \<open>
  The builder wires three stages into one observable pipeline: start the dev server
  (when \<^verbatim>\<open>devServerTarget\<close> is truthy), update webdriver (when \<^verbatim>\<open>webdriverUpdate\<close>
  is set), run Protractor in a forked process. The embedding follows one subscription
  of the observable returned by \<^verbatim>\<open>run\<close>:

  \<^item> the options object that the stages share and mutate is a field of an explicit
    state, next to the trace of the calls made to the collaborators;
  \<^item> a collaborator (the architect, \<^verbatim>\<open>requireProjectModule\<close>, the webdriver-manager
    program, \<^verbatim>\<open>runModuleAsObservableFork\<close>, the path and tag helpers of the devkit core)
    is a field of the context record, so every statement holds for all of them;
  \<^item> an observable or a promise of a collaborator is represented by the first
    notification it delivers, a value (\<open>Inr\<close>) or an error (\<open>Inl\<close>). \<^verbatim>\<open>concatMap\<close> awaits the
    inner observable of a value before it takes the next one, the callbacks of the
    pipeline of \<^verbatim>\<open>run\<close> ignore the value they are given, and the final \<^verbatim>\<open>take(1)\<close> closes
    the subscription at the first build event of the Protractor stage, so this first
    notification is the one that drives a run. Notifications that would arrive while a
    later stage is still pending, and a collaborator that neither delivers nor fails (a
    process that hangs), are outside the model;
  \<^item> an exception thrown inside a callback of the pipeline becomes the error
    notification of the pipeline, as rxjs does; the exception thrown by \<^verbatim>\<open>run\<close> itself,
    before the observable exists, is kept apart (\<open>Throws\<close>).
\<close>

subsection \<open>JavaScript values\<close>

datatype error = Error (message: string)

text \<open>Truthiness of a string, and of a string that may be \<^verbatim>\<open>undefined\<close>.\<close>

definition truthy :: "string \<Rightarrow> bool" where
  "truthy s = (s \<noteq> [])"

definition truthy_opt :: "string option \<Rightarrow> bool" where
  "truthy_opt so = (case so of None \<Rightarrow> False | Some s \<Rightarrow> truthy s)"

text \<open>\<^verbatim>\<open>x || ''\<close> for a string that may be \<^verbatim>\<open>undefined\<close>.\<close>

definition or_empty :: "string option \<Rightarrow> string" where
  "or_empty so = (case so of None \<Rightarrow> [] | Some s \<Rightarrow> s)"

text \<open>Truthiness of a boolean that may be \<^verbatim>\<open>undefined\<close>.\<close>

definition truthy_bool :: "bool option \<Rightarrow> bool" where
  "truthy_bool bo = (bo = Some True)"

definition digit_chars :: string where
  "digit_chars = ''0123456789''"

fun digits_of_nat :: "nat \<Rightarrow> string" where
  "digits_of_nat n =
     (if n < 10 then [digit_chars ! n]
      else digits_of_nat (n div 10) @ [digit_chars ! (n mod 10)])"

declare digits_of_nat.simps [simp del]

text \<open>\<^verbatim>\<open>Number.prototype.toString()\<close> on an integral number (a port).\<close>

definition number_toString :: "int \<Rightarrow> string" where
  "number_toString i = (if i < 0 then ''-'' @ digits_of_nat (nat (- i)) else digits_of_nat (nat i))"

text \<open>\<^verbatim>\<open>s.split(c)\<close> of a string at a one-character separator.\<close>

fun split_on :: "char \<Rightarrow> string \<Rightarrow> string list" where
  "split_on c [] = [[]]"
| "split_on c (x # xs) =
     (if x = c then [] # split_on c xs
      else (case split_on c xs of [] \<Rightarrow> [[x]] | y # ys \<Rightarrow> (x # y) # ys))"

text \<open>An array element read by a destructuring pattern: \<^verbatim>\<open>undefined\<close> past the end.\<close>

definition element :: "'a list \<Rightarrow> nat \<Rightarrow> 'a option" where
  "element xs i = (if i < length xs then Some (xs ! i) else None)"

subsection \<open>Node's \<^verbatim>\<open>url.parse\<close> and \<^verbatim>\<open>url.format\<close>\<close>

text \<open>
  The builder calls \<^verbatim>\<open>url.format\<close> on an object literal, and \<^verbatim>\<open>url.format(url.parse(s))\<close>
  on a string \<open>s\<close> that starts with \<^verbatim>\<open>\w+://\<close>. Both functions belong to the platform
  (\<^verbatim>\<open>lib/url.js\<close> of Node, the legacy API); they are modelled on byte strings after that
  file as it is in Node 10. Left out: the fast path of the parser for a string that
  starts with \<^verbatim>\<open>/\<close> (the builder never passes one), the conversion of a non-ASCII host
  name to punycode, and the percent-decoding and re-encoding of a user-info part, which
  is carried over as written. The derived fields \<^verbatim>\<open>path\<close>, \<^verbatim>\<open>query\<close> and \<^verbatim>\<open>href\<close> of a
  parsed URL are not read by \<^verbatim>\<open>url.format\<close> and are not represented.
\<close>

record UrlObject =
  url_protocol :: "string option"
  url_slashes :: bool
  url_auth :: "string option"
  url_host :: "string option"
  url_port :: "string option"
  url_hostname :: "string option"
  url_hash :: "string option"
  url_search :: "string option"
  url_pathname :: "string option"

definition lower_alpha :: string where
  "lower_alpha = ''abcdefghijklmnopqrstuvwxyz''"

definition upper_alpha :: string where
  "upper_alpha = ''ABCDEFGHIJKLMNOPQRSTUVWXYZ''"

definition toLowerCase :: "string \<Rightarrow> string" where
  "toLowerCase s =
     map (\<lambda>c. case map_of (zip upper_alpha lower_alpha) c of None \<Rightarrow> c | Some l \<Rightarrow> l) s"

definition startsWith :: "string \<Rightarrow> string \<Rightarrow> bool" where
  "startsWith s p = (take (length p) s = p)"

definition slashedProtocol :: "string list" where
  "slashedProtocol = [''http'', ''http:'', ''https'', ''https:'', ''ftp'', ''ftp:'',
     ''gopher'', ''gopher:'', ''file'', ''file:'']"

definition hostlessProtocol :: "string list" where
  "hostlessProtocol = [''javascript'', ''javascript:'']"

definition unsafeProtocol :: "string list" where
  "unsafeProtocol = [''javascript'', ''javascript:'']"

text \<open>\<^verbatim>\<open>Url.prototype.format\<close>.\<close>

definition url_format :: "UrlObject \<Rightarrow> string" where
  "url_format u =
     (let auth = (if truthy_opt (url_auth u) then or_empty (url_auth u) @ ''@'' else []);
          protocol = or_empty (url_protocol u);
          pathname = or_empty (url_pathname u);
          hash = or_empty (url_hash u);
          hostname = or_empty (url_hostname u);
          host =
            (if truthy_opt (url_host u) then auth @ or_empty (url_host u)
             else if truthy_opt (url_hostname u) then
               auth @ (if CHR '':'' \<in> set hostname then ''['' @ hostname @ '']'' else hostname)
                 @ (if truthy_opt (url_port u) then '':'' @ or_empty (url_port u) else [])
             else []);
          search = or_empty (url_search u);
          protocol = (if protocol \<noteq> [] \<and> last protocol \<noteq> CHR '':'' then protocol @ '':'' else protocol);
          pathname = concat (map (\<lambda>c. if c = CHR ''#'' then ''%23''
                                       else if c = CHR ''?'' then ''%3F'' else [c]) pathname);
          slashed = (url_slashes u \<or> protocol \<in> set slashedProtocol);
          pathname = (if slashed \<and> (url_slashes u \<or> host \<noteq> []) \<and> pathname \<noteq> []
                         \<and> hd pathname \<noteq> CHR ''/''
                      then ''/'' @ pathname else pathname);
          host = (if slashed then
                    (if url_slashes u \<or> host \<noteq> [] then ''//'' @ host
                     else if startsWith protocol ''file'' then ''//'' else host)
                  else host);
          search = concat (map (\<lambda>c. if c = CHR ''#'' then ''%23'' else [c]) search);
          hash = (if hash \<noteq> [] \<and> hd hash \<noteq> CHR ''#'' then ''#'' @ hash else hash);
          search = (if search \<noteq> [] \<and> hd search \<noteq> CHR ''?'' then ''?'' @ search else search)
      in protocol @ host @ pathname @ search @ hash)"

text \<open>The parser. Blanks around the string are dropped, and a backslash before the first
  \<^verbatim>\<open>?\<close> or \<^verbatim>\<open>#\<close> counts as a slash.\<close>

definition url_ws :: string where
  "url_ws = [CHR '' '', CHR 0x09, CHR 0x0D, CHR 0x0A, CHR 0x0C]"

definition url_trim :: "string \<Rightarrow> string" where
  "url_trim s = rev (dropWhile (\<lambda>c. c \<in> set url_ws) (rev (dropWhile (\<lambda>c. c \<in> set url_ws) s)))"

definition convert_backslashes :: "string \<Rightarrow> string" where
  "convert_backslashes s =
     map (\<lambda>c. if c = CHR 0x5C then CHR ''/'' else c) (takeWhile (\<lambda>c. c \<notin> set ''?#'') s)
       @ dropWhile (\<lambda>c. c \<notin> set ''?#'') s"

text \<open>\<^verbatim>\<open>protocolPattern = /^([a-z0-9.+-]+:)/i\<close>: the protocol with its colon.\<close>

definition protocol_chars :: string where
  "protocol_chars = lower_alpha @ upper_alpha @ digit_chars @ ''.+-''"

definition match_protocol :: "string \<Rightarrow> string option" where
  "match_protocol s =
     (let w = takeWhile (\<lambda>c. c \<in> set protocol_chars) s;
          r = dropWhile (\<lambda>c. c \<in> set protocol_chars) s
      in if w \<noteq> [] \<and> startsWith r '':'' then Some (w @ '':'') else None)"

text \<open>\<^verbatim>\<open>hostPattern = /^\/\/[^@\/]+@[^@\/]+/\<close>.\<close>

definition hostPattern_test :: "string \<Rightarrow> bool" where
  "hostPattern_test s =
     (startsWith s ''//'' \<and>
      (let a = takeWhile (\<lambda>c. c \<notin> set ''@/'') (drop 2 s);
           b = dropWhile (\<lambda>c. c \<notin> set ''@/'') (drop 2 s)
       in a \<noteq> [] \<and> startsWith b ''@'' \<and>
          (case drop 1 b of [] \<Rightarrow> False | c # _ \<Rightarrow> c \<notin> set ''@/'')))"

text \<open>The characters that are never part of a host name: tab, line feed, carriage return,
  space, and \<^verbatim>\<open>" % ' ; < > \ ^ ` { | }\<close>.\<close>

definition never_host_chars :: string where
  "never_host_chars = [CHR 0x09, CHR 0x0A, CHR 0x0D, CHR 0x20, CHR 0x22, CHR 0x25, CHR 0x27,
     CHR 0x3B, CHR 0x3C, CHR 0x3E, CHR 0x5C, CHR 0x5E, CHR 0x60, CHR 0x7B, CHR 0x7C, CHR 0x7D]"

text \<open>The scan for the end of the host: the index of the last \<^verbatim>\<open>@\<close> before the host ends
  (\<open>atSign\<close>) and of the first character after it that cannot be in a host (\<open>nonHost\<close>).\<close>

fun host_scan :: "string \<Rightarrow> nat \<Rightarrow> nat option \<Rightarrow> nat option \<Rightarrow> nat option \<times> nat option" where
  "host_scan [] i atSign nonHost = (atSign, nonHost)"
| "host_scan (c # cs) i atSign nonHost =
     (if c \<in> set never_host_chars then
        host_scan cs (Suc i) atSign (if nonHost = None then Some i else nonHost)
      else if c \<in> set ''#/?'' then (atSign, if nonHost = None then Some i else nonHost)
      else if c = CHR ''@'' then host_scan cs (Suc i) (Some i) None
      else host_scan cs (Suc i) atSign nonHost)"

text \<open>\<^verbatim>\<open>parseHost\<close> with \<^verbatim>\<open>portPattern = /:[0-9]*$/\<close>: the port, if any, and the host without it.\<close>

definition parseHost :: "string \<Rightarrow> string option \<times> string" where
  "parseHost h =
     (let d = takeWhile (\<lambda>c. c \<in> set digit_chars) (rev h);
          r = dropWhile (\<lambda>c. c \<in> set digit_chars) (rev h)
      in if startsWith r '':'' then ((if d \<noteq> [] then Some (rev d) else None), rev (drop 1 r))
         else (None, h))"

definition hostname_chars :: string where
  "hostname_chars = lower_alpha @ upper_alpha @ digit_chars @ ''.-+_''"

definition valid_hostname_char :: "char \<Rightarrow> bool" where
  "valid_hostname_char c = (c \<in> set hostname_chars \<or> (127::nat) < of_char c)"

text \<open>A host name is cut at its first invalid character; what follows opens the path.\<close>

definition validateHostname :: "string \<Rightarrow> string \<Rightarrow> string \<times> string" where
  "validateHostname rest hostname =
     (let bad = dropWhile valid_hostname_char hostname
      in if bad = [] then (hostname, rest)
         else (takeWhile valid_hostname_char hostname, ''/'' @ bad @ rest))"

definition autoEscape :: "(char \<times> string) list" where
  "autoEscape = [(CHR 0x09, ''%09''), (CHR 0x0A, ''%0A''), (CHR 0x0D, ''%0D''),
     (CHR 0x20, ''%20''), (CHR 0x22, ''%22''), (CHR 0x27, ''%27''), (CHR 0x3C, ''%3C''),
     (CHR 0x3E, ''%3E''), (CHR 0x5C, ''%5C''), (CHR 0x5E, ''%5E''), (CHR 0x60, ''%60''),
     (CHR 0x7B, ''%7B''), (CHR 0x7C, ''%7C''), (CHR 0x7D, ''%7D'')]"

definition autoEscapeStr :: "string \<Rightarrow> string" where
  "autoEscapeStr s = concat (map (\<lambda>c. case map_of autoEscape c of None \<Rightarrow> [c] | Some e \<Rightarrow> e) s)"

text \<open>The host section of a URL: user-info, host, port and host name, and what is left of
  the string after the host.\<close>

record HostPart =
  hp_auth :: "string option"
  hp_host :: string
  hp_port :: "string option"
  hp_hostname :: string
  hp_rest :: string

definition parse_host_part :: "string \<Rightarrow> HostPart" where
  "parse_host_part rest =
     (let (atSign, nonHost) = host_scan rest 0 None None;
          start = (case atSign of None \<Rightarrow> 0 | Some a \<Rightarrow> Suc a);
          auth = map_option (\<lambda>a. take a rest) atSign;
          host = (case nonHost of None \<Rightarrow> drop start rest
                  | Some n \<Rightarrow> take (n - start) (drop start rest));
          rest = (case nonHost of None \<Rightarrow> [] | Some n \<Rightarrow> drop n rest);
          (port, hostname) = parseHost host;
          ipv6Hostname = (hostname \<noteq> [] \<and> hd hostname = CHR ''['' \<and> last hostname = CHR '']'');
          (hostname, rest) = (if \<not> ipv6Hostname then validateHostname rest hostname
                              else (hostname, rest));
          hostname = (if 255 < length hostname then [] else toLowerCase hostname);
          host = hostname @ (case port of None \<Rightarrow> [] | Some p \<Rightarrow> '':'' @ p)
      in \<lparr>hp_auth = auth, hp_host = host, hp_port = port,
          hp_hostname = (if ipv6Hostname then butlast (tl hostname) else hostname),
          hp_rest = (if ipv6Hostname \<and> \<not> startsWith rest ''/'' then ''/'' @ rest else rest)\<rparr>)"

text \<open>\<^verbatim>\<open>Url.prototype.parse(url, false, false)\<close>.\<close>

definition url_parse :: "string \<Rightarrow> UrlObject" where
  "url_parse url =
     (let rest = convert_backslashes (url_trim url);
          proto = match_protocol rest;
          lowerProto = map_option toLowerCase proto;
          rest = drop (length (or_empty proto)) rest;
          hostless = (or_empty lowerProto \<in> set hostlessProtocol);
          slashes = ((proto \<noteq> None \<or> hostPattern_test rest) \<and> startsWith rest ''//'');
          this_slashes = (slashes \<and> \<not> hostless);
          rest = (if this_slashes then drop 2 rest else rest);
          has_host = (\<not> hostless \<and>
                      (slashes \<or> (proto \<noteq> None \<and> or_empty lowerProto \<notin> set slashedProtocol)));
          hp = parse_host_part rest;
          rest = (if has_host then hp_rest hp else rest);
          rest = (if or_empty lowerProto \<in> set unsafeProtocol then rest else autoEscapeStr rest);
          hash = dropWhile (\<lambda>c. c \<noteq> CHR ''#'') rest;
          before_hash = takeWhile (\<lambda>c. c \<noteq> CHR ''#'') rest;
          search = dropWhile (\<lambda>c. c \<noteq> CHR ''?'') before_hash;
          pathname = takeWhile (\<lambda>c. c \<noteq> CHR ''?'') before_hash;
          hostname = (if has_host then Some (hp_hostname hp) else None)
      in \<lparr>url_protocol = lowerProto,
          url_slashes = this_slashes,
          url_auth = (if has_host then hp_auth hp else None),
          url_host = (if has_host then Some (hp_host hp) else None),
          url_port = (if has_host then hp_port hp else None),
          url_hostname = hostname,
          url_hash = (if hash \<noteq> [] then Some hash else None),
          url_search = (if search \<noteq> [] then Some search else None),
          url_pathname =
            (if pathname \<noteq> [] then Some pathname
             else if or_empty lowerProto \<in> set slashedProtocol \<and> truthy_opt hostname then Some ''/''
             else None)\<rparr>)"



subsection \<open>The builder's data\<close>

type_synonym Path = string

text \<open>\<^verbatim>\<open>interface ProtractorBuilderOptions\<close>, with its optional fields as options.\<close>

record ProtractorBuilderOptions =
  protractorConfig :: string
  devServerTarget :: "string option"
  specs :: "string list"
  suite :: "string option"
  elementExplorer :: bool
  webdriverUpdate :: bool
  port :: "int option"
  host :: string
  baseUrl :: string

text \<open>The fields of \<^verbatim>\<open>DevServerBuilderOptions\<close> that the builder overrides or reads; each may
  be absent, as in the \<^verbatim>\<open>Partial\<close> that carries the overrides.\<close>

record DevServerBuilderOptions =
  ds_watch :: "bool option"
  ds_host :: "string option"
  ds_port :: "int option"
  ds_publicHost :: "string option"
  ds_ssl :: "bool option"

record 'o BuilderConfiguration =
  root :: Path
  options :: 'o

record TargetSpecifier =
  project :: "string option"
  target :: "string option"
  configuration :: "string option"
  overrides :: DevServerBuilderOptions

text \<open>\<^verbatim>\<open>DevServerResult\<close> of \<^verbatim>\<open>build-webpack\<close>, the payload of a build event of the dev server.\<close>

record DevServerResult =
  r_port :: int
  r_family :: string
  r_address :: string

record BuildEvent =
  success :: bool
  result :: "DevServerResult option"

text \<open>The argument of \<^verbatim>\<open>webdriverUpdate.program.run\<close>.\<close>

record UpdateConfig =
  standalone :: bool
  gecko :: bool
  quiet :: bool

text \<open>The object literal \<^verbatim>\<open>additionalProtractorConfig\<close>: four keys, two of which may hold
  \<^verbatim>\<open>undefined\<close>.\<close>

record AdditionalProtractorConfig =
  apc_elementExplorer :: bool
  apc_baseUrl :: string
  apc_specs :: "string list option"
  apc_suite :: "string option"

type_synonym BuilderDescription = string

type_synonym Module = string

type_synonym DevServerConfiguration = "DevServerBuilderOptions BuilderConfiguration"

subsection \<open>Collaborators, effects and state\<close>

text \<open>
  The context holds the workspace root and what the collaborators answer. A call that
  can throw, a promise and an observable all answer with an error or a value.
  \<open>validateBuilderOptions\<close> validates the configuration object in place: its answer is the
  object as it stands afterwards, which is what the builder reads from then on.
  \<open>builder_run\<close> is \<^verbatim>\<open>getBuilder(description, context).run(builderConfig)\<close>, and
  \<open>program_run\<close> is the \<^verbatim>\<open>program.run\<close> of the module that a probe found.
\<close>

record BuilderContext =
  workspace_root :: Path
  resolve :: "Path \<Rightarrow> Path \<Rightarrow> Path"
  normalize :: "string \<Rightarrow> Path"
  getSystemPath :: "Path \<Rightarrow> string"
  stripIndents :: "string \<Rightarrow> string"
  getBuilderConfiguration :: "TargetSpecifier \<Rightarrow> error + DevServerConfiguration"
  getBuilderDescription :: "DevServerConfiguration \<Rightarrow> error + BuilderDescription"
  validateBuilderOptions ::
    "DevServerConfiguration \<Rightarrow> BuilderDescription \<Rightarrow> error + DevServerConfiguration"
  builder_run :: "BuilderDescription \<Rightarrow> DevServerConfiguration \<Rightarrow> error + BuildEvent"
  requireProjectModule :: "string \<Rightarrow> string \<Rightarrow> error + Module"
  program_run :: "Module \<Rightarrow> UpdateConfig \<Rightarrow> error + unit"
  runModuleAsObservableFork ::
    "string \<Rightarrow> string \<Rightarrow> string \<Rightarrow> string \<Rightarrow> AdditionalProtractorConfig \<Rightarrow> error + BuildEvent"

text \<open>What a run does to the outside, in order; the assignment to \<^verbatim>\<open>options.baseUrl\<close> is
  recorded too.\<close>

datatype effect =
    GetBuilderConfiguration TargetSpecifier
  | GetBuilderDescription DevServerConfiguration
  | ValidateBuilderOptions DevServerConfiguration BuilderDescription
  | BuilderRun BuilderDescription DevServerConfiguration
  | AssignBaseUrl string
  | RequireProjectModule string string
  | ProgramRun Module UpdateConfig
  | RunModuleAsObservableFork string string string string AdditionalProtractorConfig

record state =
  st_options :: ProtractorBuilderOptions
  st_trace :: "effect list"

definition log :: "effect \<Rightarrow> state \<Rightarrow> state" where
  "log e s = s\<lparr>st_trace := st_trace s @ [e]\<rparr>"

text \<open>The stage an effect belongs to: 1 the dev server, 2 the webdriver update, 3 the
  Protractor run.\<close>

fun stage_of :: "effect \<Rightarrow> nat" where
  "stage_of (GetBuilderConfiguration _) = 1"
| "stage_of (GetBuilderDescription _) = 1"
| "stage_of (ValidateBuilderOptions _ _) = 1"
| "stage_of (BuilderRun _ _) = 1"
| "stage_of (AssignBaseUrl _) = 1"
| "stage_of (RequireProjectModule _ _) = 2"
| "stage_of (ProgramRun _ _) = 2"
| "stage_of (RunModuleAsObservableFork _ _ _ _ _) = 3"

subsection \<open>Observables\<close>

type_synonym 'a Observable = "state \<Rightarrow> (error + 'a) \<times> state"

text \<open>\<^verbatim>\<open>of(x)\<close>.\<close>

definition rx_of :: "'a \<Rightarrow> 'a Observable" where
  "rx_of x s = (Inr x, s)"

text \<open>A call to a collaborator: the effect is recorded, the answer is the notification.\<close>

definition call :: "effect \<Rightarrow> error + 'a \<Rightarrow> 'a Observable" where
  "call e answer s = (answer, log e s)"

text \<open>\<^verbatim>\<open>source.pipe(concatMap(f))\<close>: an error of the source passes through and \<open>f\<close> is
  not called.\<close>

definition concatMap :: "('a \<Rightarrow> 'b Observable) \<Rightarrow> 'a Observable \<Rightarrow> 'b Observable" where
  "concatMap f source s =
     (case source s of (Inl e, s') \<Rightarrow> (Inl e, s') | (Inr a, s') \<Rightarrow> f a s')"

text \<open>\<^verbatim>\<open>source.pipe(tap(f))\<close>: the value passes through unchanged, whatever \<open>f\<close> does.\<close>

definition tap :: "('a \<Rightarrow> state \<Rightarrow> state) \<Rightarrow> 'a Observable \<Rightarrow> 'a Observable" where
  "tap f source s =
     (case source s of (Inl e, s') \<Rightarrow> (Inl e, s') | (Inr a, s') \<Rightarrow> (Inr a, f a s'))"

text \<open>\<^verbatim>\<open>take(1)\<close> on the first notification.\<close>

definition take1 :: "'a Observable \<Rightarrow> 'a Observable" where
  "take1 source = source"

subsection \<open>\<^verbatim>\<open>_startDevServer\<close>\<close>

text \<open>\<^verbatim>\<open>/^\w+:\/\//.test(publicHost)\<close>.\<close>

definition word_chars :: string where
  "word_chars = lower_alpha @ upper_alpha @ digit_chars @ ''_''"

definition has_scheme :: "string \<Rightarrow> bool" where
  "has_scheme publicHost =
     (takeWhile (\<lambda>c. c \<in> set word_chars) publicHost \<noteq> [] \<and>
      startsWith (dropWhile (\<lambda>c. c \<in> set word_chars) publicHost) ''://'')"

text \<open>\<^verbatim>\<open>builderConfig.options.ssl ? 'https' : 'http'\<close>.\<close>

definition scheme_of :: "DevServerBuilderOptions \<Rightarrow> string" where
  "scheme_of dso = (if truthy_bool (ds_ssl dso) then ''https'' else ''http'')"

text \<open>The base URL that the callback of the last \<^verbatim>\<open>tap\<close> computes on a successful event
  (lines 91 to 108).\<close>

definition computeBaseUrl ::
  "ProtractorBuilderOptions \<Rightarrow> DevServerBuilderOptions \<Rightarrow> BuildEvent \<Rightarrow> string" where
  "computeBaseUrl opts dso buildEvent =
     (if truthy_opt (ds_publicHost dso) then
        (let publicHost = or_empty (ds_publicHost dso);
             publicHost = (if \<not> has_scheme publicHost then scheme_of dso @ ''://'' @ publicHost
                           else publicHost);
             clientUrl = url_parse publicHost
         in url_format clientUrl)
      else
        url_format \<lparr>url_protocol = Some (scheme_of dso), url_slashes = False, url_auth = None,
          url_host = None,
          url_port = map_option (\<lambda>r. number_toString (r_port r)) (result buildEvent),
          url_hostname = Some (host opts), url_hash = None, url_search = None,
          url_pathname = None\<rparr>)"

text \<open>The callback of the last \<^verbatim>\<open>tap\<close> (lines 85 to 112).\<close>

definition startDevServer_tap :: "DevServerConfiguration \<Rightarrow> BuildEvent \<Rightarrow> state \<Rightarrow> state" where
  "startDevServer_tap builderConfig buildEvent s =
     (if \<not> success buildEvent then s
      else (let b = computeBaseUrl (st_options s) (options builderConfig) buildEvent
            in log (AssignBaseUrl b) (s\<lparr>st_options := (st_options s)\<lparr>baseUrl := b\<rparr>\<rparr>)))"

text \<open>The target specifier, from \<^verbatim>\<open>devServerTarget.split(':')\<close> and the overrides. The
  interface declares \<^verbatim>\<open>host\<close> a string, so the test \<^verbatim>\<open>options.host !== undefined\<close> holds and
  the host is always among the overrides; the port is among them when it is defined.\<close>

definition targetSpec_of :: "ProtractorBuilderOptions \<Rightarrow> string \<Rightarrow> TargetSpecifier" where
  "targetSpec_of opts devServerTarget_string =
     (let parts = split_on (CHR '':'') devServerTarget_string
      in \<lparr>project = element parts 0, target = element parts 1, configuration = element parts 2,
          overrides = \<lparr>ds_watch = Some False, ds_host = Some (host opts), ds_port = port opts,
            ds_publicHost = None, ds_ssl = None\<rparr>\<rparr>)"

text \<open>The stage. The callbacks of its pipe are nested here, so that the description and
  the configuration, which the source keeps in variables of the method, are in scope
  where they are read. \<^verbatim>\<open>split\<close> on an \<^verbatim>\<open>undefined\<close> target would be a type error; \<^verbatim>\<open>run\<close> calls
  the stage with a truthy target only.\<close>

definition startDevServer :: "BuilderContext \<Rightarrow> BuildEvent Observable" where
  "startDevServer ctx s =
     (case devServerTarget (st_options s) of
        None \<Rightarrow> (Inl (Error ''TypeError: Cannot read property 'split' of undefined''), s)
      | Some t \<Rightarrow>
          (let targetSpec = targetSpec_of (st_options s) t
           in concatMap (\<lambda>builderConfig.
                concatMap (\<lambda>devServerDescription.
                  concatMap (\<lambda>builderConfig.
                    tap (startDevServer_tap builderConfig)
                      (call (BuilderRun devServerDescription builderConfig)
                         (builder_run ctx devServerDescription builderConfig)))
                    (call (ValidateBuilderOptions builderConfig devServerDescription)
                       (validateBuilderOptions ctx builderConfig devServerDescription)))
                  (call (GetBuilderDescription builderConfig)
                     (getBuilderDescription ctx builderConfig)))
                (call (GetBuilderConfiguration targetSpec)
                   (getBuilderConfiguration ctx targetSpec)) s))"

subsection \<open>\<^verbatim>\<open>_updateWebdriver\<close>\<close>

definition webdriverDeepImport :: string where
  "webdriverDeepImport = ''webdriver-manager/built/lib/cmds/update''"

text \<open>The template literal of the error thrown when both probes fail (lines 130 to 133).\<close>

definition webdriver_not_found_template :: string where
  "webdriver_not_found_template =
     ''\<newline>          Cannot automatically find webdriver-manager to update.''
     @ ''\<newline>          Update webdriver-manager manually and run 'ng e2e --no-webdriver-update' instead.''
     @ ''\<newline>        ''"

definition fixed_update_config :: UpdateConfig where
  "fixed_update_config = \<lparr>standalone = False, gecko = False, quiet = True\<rparr>"

definition updateWebdriver :: "BuilderContext \<Rightarrow> Path \<Rightarrow> unit Observable" where
  "updateWebdriver ctx projectRoot s =
     (let nested = ''protractor/node_modules/'' @ webdriverDeepImport;
          s1 = log (RequireProjectModule (getSystemPath ctx projectRoot) nested) s
      in case requireProjectModule ctx (getSystemPath ctx projectRoot) nested of
           Inr webdriverUpdateModule \<Rightarrow>
             call (ProgramRun webdriverUpdateModule fixed_update_config)
               (program_run ctx webdriverUpdateModule fixed_update_config) s1
         | Inl _ \<Rightarrow>
             (let s2 = log (RequireProjectModule (getSystemPath ctx projectRoot)
                              webdriverDeepImport) s1
              in case requireProjectModule ctx (getSystemPath ctx projectRoot)
                        webdriverDeepImport of
                   Inr webdriverUpdateModule \<Rightarrow>
                     call (ProgramRun webdriverUpdateModule fixed_update_config)
                       (program_run ctx webdriverUpdateModule fixed_update_config) s2
                 | Inl _ \<Rightarrow> (Inl (Error (stripIndents ctx webdriver_not_found_template)), s2)))"

subsection \<open>\<^verbatim>\<open>_runProtractor\<close>\<close>

definition additionalProtractorConfig_of ::
  "ProtractorBuilderOptions \<Rightarrow> AdditionalProtractorConfig" where
  "additionalProtractorConfig_of opts =
     \<lparr>apc_elementExplorer = elementExplorer opts,
      apc_baseUrl = baseUrl opts,
      apc_specs = (if length (specs opts) \<noteq> 0 then Some (specs opts) else None),
      apc_suite = suite opts\<rparr>"

definition runProtractor :: "BuilderContext \<Rightarrow> Path \<Rightarrow> BuildEvent Observable" where
  "runProtractor ctx workspaceRoot s =
     (let additionalProtractorConfig = additionalProtractorConfig_of (st_options s);
          configPath = getSystemPath ctx
            (resolve ctx workspaceRoot (normalize ctx (protractorConfig (st_options s))))
      in call (RunModuleAsObservableFork (getSystemPath ctx workspaceRoot)
                 ''protractor/built/launcher'' ''init'' configPath additionalProtractorConfig)
           (runModuleAsObservableFork ctx (getSystemPath ctx workspaceRoot)
              ''protractor/built/launcher'' ''init'' configPath additionalProtractorConfig) s)"

subsection \<open>\<^verbatim>\<open>run\<close>\<close>

text \<open>The template literal of the error thrown when both options are set (lines 50 to 53).\<close>

definition baseUrl_conflict_template :: string where
  "baseUrl_conflict_template =
     ''\<newline>      The 'baseUrl' option cannot be used with 'devServerTarget'.''
     @ ''\<newline>      When present, 'devServerTarget' will be used to automatically setup 'baseUrl' for Protractor.''
     @ ''\<newline>      ''"

text \<open>How a run ends: \<open>Throws\<close> when \<^verbatim>\<open>run\<close> itself throws and no observable is returned;
  \<open>Fails\<close> when the observable ends with an error; \<open>Emits\<close> when it delivers its one build
  event and completes.\<close>

datatype RunResult = Throws error | Fails error | Emits BuildEvent

definition subscribe :: "BuildEvent Observable \<Rightarrow> state \<Rightarrow> RunResult \<times> state" where
  "subscribe source s =
     (case source s of (Inl e, s') \<Rightarrow> (Fails e, s') | (Inr buildEvent, s') \<Rightarrow> (Emits buildEvent, s'))"

text \<open>The two optional stages. Their callbacks in \<^verbatim>\<open>run\<close> read the options object when the
  value of the stage before arrives; the value a stage delivers is not read by the
  next callback, so it is dropped here.\<close>

definition devServerStage :: "BuilderContext \<Rightarrow> unit Observable" where
  "devServerStage ctx s =
     (if truthy_opt (devServerTarget (st_options s))
      then concatMap (\<lambda>_. rx_of ()) (startDevServer ctx) s
      else rx_of () s)"

definition webdriverStage :: "BuilderContext \<Rightarrow> Path \<Rightarrow> unit Observable" where
  "webdriverStage ctx projectRoot s =
     (if webdriverUpdate (st_options s) then updateWebdriver ctx projectRoot s else rx_of () s)"

definition run ::
  "BuilderContext \<Rightarrow> ProtractorBuilderOptions BuilderConfiguration \<Rightarrow> RunResult \<times> state" where
  "run ctx builderConfig =
     (let opts = options builderConfig;
          workspaceRoot = workspace_root ctx;
          projectRoot = resolve ctx workspaceRoot (root builderConfig);
          s0 = \<lparr>st_options = opts, st_trace = []\<rparr>
      in if truthy_opt (devServerTarget opts) \<and> truthy (baseUrl opts)
         then (Throws (Error (stripIndents ctx baseUrl_conflict_template)), s0)
         else subscribe
                (take1
                  (concatMap (\<lambda>_. runProtractor ctx workspaceRoot)
                    (concatMap (\<lambda>_. webdriverStage ctx projectRoot)
                      (concatMap (\<lambda>_. devServerStage ctx)
                        (rx_of ()))))) s0)"

text \<open>The state in which the pipeline of a run is subscribed to, and the project root that
  \<^verbatim>\<open>run\<close> passes to the webdriver stage.\<close>

definition initial_state :: "ProtractorBuilderOptions BuilderConfiguration \<Rightarrow> state" where
  "initial_state builderConfig = \<lparr>st_options = options builderConfig, st_trace = []\<rparr>"

definition projectRoot_of ::
  "BuilderContext \<Rightarrow> ProtractorBuilderOptions BuilderConfiguration \<Rightarrow> Path" where
  "projectRoot_of ctx builderConfig = resolve ctx (workspace_root ctx) (root builderConfig)"

subsection \<open>Predicates on the trace\<close>



text \<open>An effect that is not a call of \<^verbatim>\<open>program.run\<close> with another argument than the fixed
  one.\<close>

fun fixed_update :: "effect \<Rightarrow> bool" where
  "fixed_update (ProgramRun _ c) = (c = fixed_update_config)"
| "fixed_update _ = True"

text \<open>The call of \<^verbatim>\<open>runModuleAsObservableFork\<close> that \<^verbatim>\<open>_runProtractor\<close> makes when the options are
  \<open>opts\<close>.\<close>

definition protractor_call :: "BuilderContext \<Rightarrow> ProtractorBuilderOptions \<Rightarrow> effect" where
  "protractor_call ctx opts =
     RunModuleAsObservableFork (getSystemPath ctx (workspace_root ctx))
       ''protractor/built/launcher'' ''init''
       (getSystemPath ctx (resolve ctx (workspace_root ctx) (normalize ctx (protractorConfig opts))))
       \<lparr>apc_elementExplorer = elementExplorer opts, apc_baseUrl = baseUrl opts,
        apc_specs = (if specs opts = [] then None else Some (specs opts)),
        apc_suite = suite opts\<rparr>"

subsection \<open>A concrete context\<close>

text \<open>
  Stubs for the collaborators, used to run the builder on concrete inputs. The stub
  \<open>strip_indents\<close> for \<^verbatim>\<open>tags.stripIndents\<close> trims every line of a template and then the
  whole text. The architect hands the overrides back as the options of the dev server,
  whose first build event succeeds on port 4200; webdriver-manager is found by the
  second probe only; the forked Protractor succeeds.
\<close>

definition js_trim :: "string \<Rightarrow> string" where
  "js_trim s =
     (let ws = [CHR 0x20, CHR 0x09, CHR 0x0A, CHR 0x0B, CHR 0x0C, CHR 0x0D]
      in rev (dropWhile (\<lambda>c. c \<in> set ws) (rev (dropWhile (\<lambda>c. c \<in> set ws) s))))"

fun join_lines :: "string list \<Rightarrow> string" where
  "join_lines [] = []"
| "join_lines [l] = l"
| "join_lines (l # m # ls) = l @ ''\<newline>'' @ join_lines (m # ls)"

definition strip_indents :: "string \<Rightarrow> string" where
  "strip_indents template = js_trim (join_lines (map js_trim (split_on (CHR ''\<newline>'') template)))"

definition example_context :: BuilderContext where
  "example_context =
     \<lparr>workspace_root = ''/ws'',
      resolve = (\<lambda>a b. a @ ''/'' @ b),
      normalize = (\<lambda>p. p),
      getSystemPath = (\<lambda>p. p),
      stripIndents = strip_indents,
      getBuilderConfiguration = (\<lambda>ts. Inr \<lparr>root = ''app'', options = overrides ts\<rparr>),
      getBuilderDescription = (\<lambda>c. Inr ''dev-server''),
      validateBuilderOptions = (\<lambda>c d. Inr c),
      builder_run = (\<lambda>d c. Inr \<lparr>success = True,
         result = Some \<lparr>r_port = 4200, r_family = ''IPv4'', r_address = ''127.0.0.1''\<rparr>\<rparr>),
      requireProjectModule = (\<lambda>dir m. if m = webdriverDeepImport then Inr ''update''
                                        else Inl (Error ''Cannot find module'')),
      program_run = (\<lambda>m c. Inr ()),
      runModuleAsObservableFork = (\<lambda>cwd m x p c. Inr \<lparr>success = True, result = None\<rparr>)\<rparr>"

definition example_options :: ProtractorBuilderOptions where
  "example_options =
     \<lparr>protractorConfig = ''protractor.conf.js'', devServerTarget = Some ''app:serve:production'',
      specs = [], suite = None, elementExplorer = False, webdriverUpdate = True, port = None,
      host = ''localhost'', baseUrl = []\<rparr>"

definition example_state :: state where
  "example_state = \<lparr>st_options = example_options, st_trace = []\<rparr>"

definition example_configuration :: "ProtractorBuilderOptions BuilderConfiguration" where
  "example_configuration = \<lparr>root = ''app'', options = example_options\<rparr>"

text \<open>The configuration of a dev server, and a successful build event of it.\<close>

definition example_devServer :: DevServerConfiguration where
  "example_devServer = \<lparr>root = ''app'',
     options = \<lparr>ds_watch = Some False, ds_host = Some ''0.0.0.0'', ds_port = Some 4200,
       ds_publicHost = None, ds_ssl = None\<rparr>\<rparr>"

definition example_event :: BuildEvent where
  "example_event = \<lparr>success = True,
     result = Some \<lparr>r_port = 4200, r_family = ''IPv4'', r_address = ''0.0.0.0''\<rparr>\<rparr>"




definition no_webdriver_context :: BuilderContext where
  "no_webdriver_context =
     example_context\<lparr>requireProjectModule := (\<lambda>dir m. Inl (Error ''Cannot find module''))\<rparr>"

text \<open>A context in which webdriver-manager lies under the modules of Protractor, as npm
  installs it.\<close>

definition npm_context :: BuilderContext where
  "npm_context =
     example_context\<lparr>requireProjectModule := (\<lambda>dir m. Inr (''module at '' @ dir @ ''/'' @ m))\<rparr>"

text \<open>Options with a list of specs and a suite, and options whose \<^verbatim>\<open>devServerTarget\<close> is the
  empty string while \<^verbatim>\<open>baseUrl\<close> is set.\<close>

definition specs_state :: state where
  "specs_state = \<lparr>st_options = example_options\<lparr>specs := [''src/app.e2e-spec.ts''],
     suite := Some ''smoke'', elementExplorer := True, baseUrl := ''http://myhost:9000''\<rparr>,
     st_trace = []\<rparr>"

definition empty_target_configuration :: "ProtractorBuilderOptions BuilderConfiguration" where
  "empty_target_configuration = \<lparr>root = ''app'',
     options = example_options\<lparr>devServerTarget := Some [], baseUrl := ''http://myhost:9000''\<rparr>\<rparr>"


section \<open>Properties\<close>

subsection \<open>What each stage does to the state\<close>

lemmas rx_defs = rx_of_def call_def concatMap_def tap_def take1_def subscribe_def log_def

lemma devServerStage_skip:
  "\<not> truthy_opt (devServerTarget (st_options s)) \<Longrightarrow> devServerStage ctx s = (Inr (), s)"
  by (simp add: devServerStage_def rx_of_def)

lemma webdriverStage_skip:
  "\<not> webdriverUpdate (st_options s) \<Longrightarrow> webdriverStage ctx projectRoot s = (Inr (), s)"
  by (simp add: webdriverStage_def rx_of_def)

lemma startDevServer_tap_trace:
  "st_trace (startDevServer_tap c ev s) =
     st_trace s @
       (if success ev then [AssignBaseUrl (computeBaseUrl (st_options s) (options c) ev)] else [])"
  by (simp add: startDevServer_tap_def log_def Let_def)

lemma startDevServer_tap_options:
  "st_options (startDevServer_tap c ev s) =
     (if success ev then (st_options s)\<lparr>baseUrl := computeBaseUrl (st_options s) (options c) ev\<rparr>
      else st_options s)"
  by (simp add: startDevServer_tap_def log_def Let_def)

text \<open>The dev-server stage appends effects of stage 1 only, and changes no option but
  \<^verbatim>\<open>baseUrl\<close>. It assigns \<^verbatim>\<open>baseUrl\<close> once when it delivers a build event with \<^verbatim>\<open>success\<close>
  true, and not at all otherwise.\<close>

lemma startDevServer_effects:
  "\<exists>tr. st_trace (snd (startDevServer ctx s)) = st_trace s @ tr \<and> (\<forall>x\<in>set tr. stage_of x = 1)"
  by (auto simp: startDevServer_def rx_defs Let_def startDevServer_tap_def
      split: option.splits sum.splits)

lemma startDevServer_options:
  "st_options (snd (startDevServer ctx s)) =
     (st_options s)\<lparr>baseUrl := baseUrl (st_options (snd (startDevServer ctx s)))\<rparr>"
  by (auto simp: startDevServer_def rx_defs Let_def startDevServer_tap_def
      split: option.splits sum.splits)



lemma updateWebdriver_effects:
  "\<exists>tr. st_trace (snd (updateWebdriver ctx projectRoot s)) = st_trace s @ tr
     \<and> (\<forall>x\<in>set tr. stage_of x = 2 \<and> fixed_update x)
     \<and> st_options (snd (updateWebdriver ctx projectRoot s)) = st_options s"
  by (auto simp: updateWebdriver_def rx_defs Let_def split: sum.splits)

lemma runProtractor_effects:
  "st_trace (snd (runProtractor ctx (workspace_root ctx) s)) =
     st_trace s @ [protractor_call ctx (st_options s)]
   \<and> st_options (snd (runProtractor ctx (workspace_root ctx) s)) = st_options s"
  by (simp add: runProtractor_def rx_defs Let_def protractor_call_def
      additionalProtractorConfig_of_def)

lemma stage_of_protractor_call: "stage_of (protractor_call ctx opts) = 3"
  by (simp add: protractor_call_def)

lemma devServerStage_startDevServer:
  assumes "truthy_opt (devServerTarget (st_options s))"
  shows "devServerStage ctx s =
           ((case fst (startDevServer ctx s) of Inl e \<Rightarrow> Inl e | Inr _ \<Rightarrow> Inr ()),
            snd (startDevServer ctx s))"
  using assms by (simp add: devServerStage_def rx_defs split: prod.splits sum.splits)

lemma devServerStage_effects:
  "\<exists>tr. st_trace (snd (devServerStage ctx s)) = st_trace s @ tr \<and> (\<forall>x\<in>set tr. stage_of x = 1)"
proof (cases "truthy_opt (devServerTarget (st_options s))")
  case True
  then show ?thesis
    using startDevServer_effects [of ctx s] by (simp add: devServerStage_startDevServer)
next
  case False
  then show ?thesis by (simp add: devServerStage_skip)
qed

lemma devServerStage_options:
  "st_options (snd (devServerStage ctx s)) =
     (st_options s)\<lparr>baseUrl := baseUrl (st_options (snd (devServerStage ctx s)))\<rparr>"
proof (cases "truthy_opt (devServerTarget (st_options s))")
  case True
  then show ?thesis
    using startDevServer_options [of ctx s] by (simp add: devServerStage_startDevServer)
next
  case False
  then show ?thesis by (simp add: devServerStage_skip)
qed

lemma webdriverStage_effects:
  "\<exists>tr. st_trace (snd (webdriverStage ctx projectRoot s)) = st_trace s @ tr
     \<and> (\<forall>x\<in>set tr. stage_of x = 2 \<and> fixed_update x)
     \<and> st_options (snd (webdriverStage ctx projectRoot s)) = st_options s"
proof (cases "webdriverUpdate (st_options s)")
  case True
  then show ?thesis
    using updateWebdriver_effects [of ctx projectRoot s] by (simp add: webdriverStage_def)
next
  case False
  then show ?thesis by (simp add: webdriverStage_skip)
qed

text \<open>A run that passes the check of the options is the three stages in sequence, an
  error of a stage ending it.\<close>

lemma run_unfold:
  assumes "\<not> (truthy_opt (devServerTarget (options bc)) \<and> truthy (baseUrl (options bc)))"
  shows "run ctx bc =
    (case devServerStage ctx (initial_state bc) of
       (Inl e, s1) \<Rightarrow> (Fails e, s1)
     | (Inr _, s1) \<Rightarrow>
        (case webdriverStage ctx (projectRoot_of ctx bc) s1 of
           (Inl e, s2) \<Rightarrow> (Fails e, s2)
         | (Inr _, s2) \<Rightarrow> subscribe (runProtractor ctx (workspace_root ctx)) s2))"
  using assms
  by (auto simp: run_def rx_defs Let_def initial_state_def projectRoot_of_def
      split: prod.splits sum.splits)


text \<open>The trace of a run that passes the check of the options: what the dev-server stage
  did, then what the webdriver stage did, then at most one call of the third stage. The
  options at the end are those that the dev-server stage left.\<close>

lemma run_trace:
  assumes nc: "\<not> (truthy_opt (devServerTarget (options bc)) \<and> truthy (baseUrl (options bc)))"
  shows "\<exists>tr2 tr3. st_trace (snd (run ctx bc)) =
             st_trace (snd (devServerStage ctx (initial_state bc))) @ tr2 @ tr3
           \<and> (\<forall>x\<in>set tr2. stage_of x = 2) \<and> (\<forall>x\<in>set tr3. stage_of x = 3) \<and> length tr3 \<le> 1
           \<and> (\<not> webdriverUpdate (options bc) \<longrightarrow> tr2 = [])
           \<and> st_options (snd (run ctx bc)) = st_options (snd (devServerStage ctx (initial_state bc)))
           \<and> (case fst (run ctx bc) of Throws _ \<Rightarrow> False | Fails _ \<Rightarrow> True
                | Emits _ \<Rightarrow> length tr3 = 1)
           \<and> (\<forall>x\<in>set tr2. fixed_update x)
           \<and> (\<forall>x\<in>set tr3. x = protractor_call ctx (st_options (snd (run ctx bc))))"
proof -
  obtain r1 s1 where d: "devServerStage ctx (initial_state bc) = (r1, s1)"
    by (cases "devServerStage ctx (initial_state bc)")
  obtain r2 s2 where w: "webdriverStage ctx (projectRoot_of ctx bc) s1 = (r2, s2)"
    by (cases "webdriverStage ctx (projectRoot_of ctx bc) s1")
  obtain r3 s3 where p: "runProtractor ctx (workspace_root ctx) s2 = (r3, s3)"
    by (cases "runProtractor ctx (workspace_root ctx) s2")
  from webdriverStage_effects [of ctx "projectRoot_of ctx bc" s1] w
  obtain tr2 where tr2: "st_trace s2 = st_trace s1 @ tr2" "\<forall>x\<in>set tr2. stage_of x = 2"
      "\<forall>x\<in>set tr2. fixed_update x" "st_options s2 = st_options s1"
    by auto
  from runProtractor_effects [of ctx s2] p
  have x: "st_trace s3 = st_trace s2 @ [protractor_call ctx (st_options s2)]"
      "st_options s3 = st_options s2"
    by auto
  have e: "st_options s1 = (options bc)\<lparr>baseUrl := baseUrl (st_options s1)\<rparr>"
    using devServerStage_options [of ctx "initial_state bc"] d by (simp add: initial_state_def)
  have o1: "webdriverUpdate (st_options s1) = webdriverUpdate (options bc)"
    using arg_cong [OF e, of webdriverUpdate] by simp
  have skip: "tr2 = []" if "\<not> webdriverUpdate (options bc)"
    using that o1 w tr2(1) by (simp add: webdriverStage_skip)
  show ?thesis
  proof (cases r1)
    case (Inl e)
    then have "run ctx bc = (Fails e, s1)"
      using d by (simp add: run_unfold [OF nc])
    then show ?thesis
      using d by (intro exI [of _ "[]"]) simp
  next
    case r1: (Inr u)
    show ?thesis
    proof (cases r2)
      case (Inl e)
      then have "run ctx bc = (Fails e, s2)"
        using d w r1 by (simp add: run_unfold [OF nc])
      then show ?thesis
        using d tr2 skip by (intro exI [of _ tr2] exI [of _ "[]"]) simp
    next
      case r2: (Inr v)
      have "snd (run ctx bc) = s3" and "fst (run ctx bc) \<noteq> Throws e" for e
        using d w p r1 r2 by (simp_all add: run_unfold [OF nc] subscribe_def split: sum.splits)
      then show ?thesis
        using d tr2 x skip
        by (intro exI [of _ tr2] exI [of _ "[protractor_call ctx (st_options s2)]"])
           (simp add: stage_of_protractor_call split: RunResult.splits)
    qed
  qed
qed

lemma run_throws_state:
  assumes "truthy_opt (devServerTarget (options bc)) \<and> truthy (baseUrl (options bc))"
  shows "snd (run ctx bc) = initial_state bc"
  using assms by (simp add: run_def Let_def initial_state_def)




lemma run_options:
  "st_options (snd (run ctx bc)) =
     (options bc)\<lparr>baseUrl := baseUrl (st_options (snd (run ctx bc)))\<rparr>"
proof (cases "truthy_opt (devServerTarget (options bc)) \<and> truthy (baseUrl (options bc))")
  case True
  then show ?thesis
    by (simp add: run_throws_state initial_state_def)
next
  case nc: False
  from run_trace [OF nc, of ctx]
  have "st_options (snd (run ctx bc)) = st_options (snd (devServerStage ctx (initial_state bc)))"
    by blast
  then show ?thesis
    using devServerStage_options [of ctx "initial_state bc"] by (simp add: initial_state_def)
qed



lemma protractor_call_in_run:
  assumes "RunModuleAsObservableFork cwd m x p a \<in> set (st_trace (snd (run ctx bc)))"
  shows "RunModuleAsObservableFork cwd m x p a = protractor_call ctx (st_options (snd (run ctx bc)))"
proof (cases "truthy_opt (devServerTarget (options bc)) \<and> truthy (baseUrl (options bc))")
  case True
  then show ?thesis
    using assms by (simp add: run_throws_state initial_state_def)
next
  case nc: False
  from run_trace [OF nc, of ctx] obtain tr2 tr3 where
    tr: "st_trace (snd (run ctx bc)) = st_trace (snd (devServerStage ctx (initial_state bc))) @ tr2 @ tr3"
    and s2: "\<forall>x\<in>set tr2. stage_of x = 2"
    and c3: "\<forall>x\<in>set tr3. x = protractor_call ctx (st_options (snd (run ctx bc)))"
    by blast
  from devServerStage_effects [of ctx "initial_state bc"]
  have s1: "\<forall>x\<in>set (st_trace (snd (devServerStage ctx (initial_state bc)))). stage_of x = 1"
    by (auto simp: initial_state_def)
  have "RunModuleAsObservableFork cwd m x p a \<in> set tr3"
    using assms tr s1 s2 by auto
  then show ?thesis
    using c3 by blast
qed

lemma update_calls_in_run:
  assumes "x \<in> set (st_trace (snd (run ctx bc)))"
  shows "fixed_update x"
proof (cases "truthy_opt (devServerTarget (options bc)) \<and> truthy (baseUrl (options bc))")
  case True
  then show ?thesis
    using assms by (simp add: run_throws_state initial_state_def)
next
  case nc: False
  from run_trace [OF nc, of ctx] obtain tr2 tr3 where
    tr: "st_trace (snd (run ctx bc)) = st_trace (snd (devServerStage ctx (initial_state bc))) @ tr2 @ tr3"
    and s3: "\<forall>x\<in>set tr3. stage_of x = 3"
    and f2: "\<forall>x\<in>set tr2. fixed_update x"
    by blast
  from devServerStage_effects [of ctx "initial_state bc"]
  have s1: "\<forall>x\<in>set (st_trace (snd (devServerStage ctx (initial_state bc)))). stage_of x = 1"
    by (auto simp: initial_state_def)
  have "fixed_update y" if "stage_of y \<noteq> 2" for y
    using that by (cases y) simp_all
  then show ?thesis
    using assms tr s1 s3 f2 by fastforce
qed

lemma startDevServer_first_effect:
  assumes "devServerTarget (st_options s) = Some t"
  shows "\<exists>tr. st_trace (snd (startDevServer ctx s)) =
           st_trace s @ GetBuilderConfiguration (targetSpec_of (st_options s) t) # tr"
  using assms
  by (auto simp: startDevServer_def rx_defs Let_def startDevServer_tap_def
      split: option.splits sum.splits)

subsection \<open>The check of the options\<close>

text \<open>
  C1. When both \<^verbatim>\<open>devServerTarget\<close> and \<^verbatim>\<open>baseUrl\<close> are truthy, \<^verbatim>\<open>run\<close> throws the error
  that says that the two options cannot be used together. It throws before the pipeline
  exists: the trace is empty, so no stage has run and neither a sub-task nor a process
  has been started, and the options are as given.
\<close>

theorem run_rejects_baseUrl_with_devServerTarget:
  assumes "truthy_opt (devServerTarget (options builderConfig))"
      and "truthy (baseUrl (options builderConfig))"
  shows "run ctx builderConfig =
           (Throws (Error (stripIndents ctx baseUrl_conflict_template)),
            \<lparr>st_options = options builderConfig, st_trace = []\<rparr>)"
  using assms by (simp add: run_def Let_def)

theorem run_rejects_baseUrl_with_devServerTarget_witness:
  "truthy_opt (devServerTarget (example_options\<lparr>baseUrl := ''http://localhost:9000''\<rparr>)) \<and>
   truthy (baseUrl (example_options\<lparr>baseUrl := ''http://localhost:9000''\<rparr>)) \<and>
   run example_context
       \<lparr>root = ''app'', options = example_options\<lparr>baseUrl := ''http://localhost:9000''\<rparr>\<rparr> =
     (Throws (Error (''The 'baseUrl' option cannot be used with 'devServerTarget'.\<newline>''
        @ ''When present, 'devServerTarget' will be used to automatically setup 'baseUrl' for Protractor.'')),
      \<lparr>st_options = example_options\<lparr>baseUrl := ''http://localhost:9000''\<rparr>, st_trace = []\<rparr>)"
proof -
  have t: "truthy_opt (devServerTarget (example_options\<lparr>baseUrl := ''http://localhost:9000''\<rparr>))"
    by (simp add: example_options_def truthy_opt_def truthy_def)
  have b: "truthy (baseUrl (example_options\<lparr>baseUrl := ''http://localhost:9000''\<rparr>))"
    by (simp add: truthy_def)
  have m: "stripIndents example_context baseUrl_conflict_template =
      ''The 'baseUrl' option cannot be used with 'devServerTarget'.\<newline>''
        @ ''When present, 'devServerTarget' will be used to automatically setup 'baseUrl' for Protractor.''"
    by code_simp
  show ?thesis
    using run_rejects_baseUrl_with_devServerTarget
      [of "\<lparr>root = ''app'', options = example_options\<lparr>baseUrl := ''http://localhost:9000''\<rparr>\<rparr>"
          example_context] t b m
    by simp
qed

subsection \<open>Errors and failed builds\<close>




subsection \<open>The base URL\<close>

lemma digits_of_nat_nonempty: "digits_of_nat n \<noteq> []"
  by (subst digits_of_nat.simps) simp

lemma number_toString_nonempty: "number_toString i \<noteq> []"
  by (simp add: number_toString_def digits_of_nat_nonempty)

lemma url_format_host_port:
  assumes "scheme = ''http'' \<or> scheme = ''https''" and "h \<noteq> []" and "CHR '':'' \<notin> set h" and "p \<noteq> []"
  shows "url_format \<lparr>url_protocol = Some scheme, url_slashes = False, url_auth = None,
           url_host = None, url_port = Some p, url_hostname = Some h, url_hash = None,
           url_search = None, url_pathname = None\<rparr> = scheme @ ''://'' @ h @ '':'' @ p"
  using assms
  by (auto simp: url_format_def Let_def truthy_opt_def truthy_def or_empty_def
      slashedProtocol_def startsWith_def)

text \<open>
  C3. On a successful build event, when the dev server has no public host, the base URL
  is \<^verbatim>\<open>url.format\<close> of the scheme (\<^verbatim>\<open>https\<close> when \<^verbatim>\<open>ssl\<close> is truthy, \<^verbatim>\<open>http\<close> otherwise, so also
  when it is unset), the \<^verbatim>\<open>host\<close> option of the Protractor builder and the port that the
  event reports. Neither the host of the dev server's own options nor the address in
  the event is read. For a host that is not empty and has no colon this is
  \<^verbatim>\<open>scheme://host:port\<close>; with host \<^verbatim>\<open>localhost\<close>, port 4200 and no TLS it is
  \<^verbatim>\<open>http://localhost:4200\<close>, as the witness shows for a dev server bound to \<^verbatim>\<open>0.0.0.0\<close>.
\<close>

theorem synthesized_baseUrl:
  assumes "success ev" and "\<not> truthy_opt (ds_publicHost (options cfg))" and "result ev = Some r"
  shows "baseUrl (st_options (startDevServer_tap cfg ev s)) =
           url_format \<lparr>url_protocol = Some (if ds_ssl (options cfg) = Some True then ''https'' else ''http''),
             url_slashes = False, url_auth = None, url_host = None,
             url_port = Some (number_toString (r_port r)),
             url_hostname = Some (host (st_options s)), url_hash = None, url_search = None,
             url_pathname = None\<rparr>
       \<and> (host (st_options s) \<noteq> [] \<and> CHR '':'' \<notin> set (host (st_options s)) \<longrightarrow>
            baseUrl (st_options (startDevServer_tap cfg ev s)) =
              (if ds_ssl (options cfg) = Some True then ''https'' else ''http'') @ ''://''
                @ host (st_options s) @ '':'' @ number_toString (r_port r))"
proof -
  let ?scheme = "if ds_ssl (options cfg) = Some True then ''https'' else ''http''"
  let ?u = "\<lparr>url_protocol = Some ?scheme,
             url_slashes = False, url_auth = None, url_host = None,
             url_port = Some (number_toString (r_port r)),
             url_hostname = Some (host (st_options s)), url_hash = None, url_search = None,
             url_pathname = None\<rparr>"
  have b: "baseUrl (st_options (startDevServer_tap cfg ev s)) = url_format ?u"
    using assms
    by (simp add: startDevServer_tap_options computeBaseUrl_def scheme_of_def truthy_bool_def)
  have "url_format ?u = ?scheme @ ''://'' @ host (st_options s) @ '':'' @ number_toString (r_port r)"
    if "host (st_options s) \<noteq> []" and "CHR '':'' \<notin> set (host (st_options s))"
    using that by (intro url_format_host_port) (simp_all add: number_toString_nonempty)
  with b show ?thesis by simp
qed

theorem synthesized_baseUrl_witness:
  "success example_event \<and>
   \<not> truthy_opt (ds_publicHost (options example_devServer)) \<and>
   result example_event = Some \<lparr>r_port = 4200, r_family = ''IPv4'', r_address = ''0.0.0.0''\<rparr> \<and>
   ds_ssl (options example_devServer) = None \<and>
   ds_host (options example_devServer) = Some ''0.0.0.0'' \<and>
   host (st_options example_state) = ''localhost'' \<and>
   baseUrl (st_options (startDevServer_tap example_devServer example_event example_state)) =
     ''http://localhost:4200''"
proof -
  have s: "success example_event"
    by (simp add: example_event_def)
  have p: "\<not> truthy_opt (ds_publicHost (options example_devServer))"
    by (simp add: example_devServer_def truthy_opt_def)
  have r: "result example_event = Some \<lparr>r_port = 4200, r_family = ''IPv4'', r_address = ''0.0.0.0''\<rparr>"
    by (simp add: example_event_def)
  have h: "host (st_options example_state) = ''localhost''"
    by (simp add: example_state_def example_options_def)
  have n: "number_toString 4200 = ''4200''"
    by code_simp
  have d: "ds_ssl (options example_devServer) = None" "ds_host (options example_devServer) = Some ''0.0.0.0''"
    by (simp_all add: example_devServer_def)
  have "baseUrl (st_options (startDevServer_tap example_devServer example_event example_state)) =
          ''http'' @ ''://'' @ ''localhost'' @ '':'' @ ''4200''"
    using synthesized_baseUrl [OF s p r, of example_state, THEN conjunct2] h n d by simp
  then show ?thesis
    using s p r h d by simp
qed

































subsection \<open>The assignment to \<^verbatim>\<open>options.baseUrl\<close>\<close>



subsection \<open>The order of the stages\<close>



subsection \<open>The webdriver update\<close>

lemma nested_import:
  "''protractor/node_modules/'' @ webdriverDeepImport =
     ''protractor/node_modules/webdriver-manager/built/lib/cmds/update''"
  by (simp add: webdriverDeepImport_def)

text \<open>
  C7. The webdriver stage first asks \<^verbatim>\<open>requireProjectModule\<close> for the deep import under the
  modules of Protractor. When that resolves, the module is used and there is no second
  probe. When it fails, the stage asks for the same deep import as a module of its own,
  and uses it when that resolves. When both probes fail, the stage ends with the error
  whose message is the template that tells to update webdriver-manager manually and to
  run \<^verbatim>\<open>ng e2e --no-webdriver-update\<close> instead; \<^verbatim>\<open>program.run\<close> is not called.
\<close>

theorem updateWebdriver_probes_two_layouts:
  "(\<forall>m. requireProjectModule ctx (getSystemPath ctx projectRoot)
            ''protractor/node_modules/webdriver-manager/built/lib/cmds/update'' = Inr m \<longrightarrow>
        updateWebdriver ctx projectRoot s =
          (program_run ctx m fixed_update_config,
           s\<lparr>st_trace := st_trace s @
              [RequireProjectModule (getSystemPath ctx projectRoot)
                 ''protractor/node_modules/webdriver-manager/built/lib/cmds/update'',
               ProgramRun m fixed_update_config]\<rparr>))
   \<and> (\<forall>e m. requireProjectModule ctx (getSystemPath ctx projectRoot)
              ''protractor/node_modules/webdriver-manager/built/lib/cmds/update'' = Inl e \<and>
            requireProjectModule ctx (getSystemPath ctx projectRoot)
              ''webdriver-manager/built/lib/cmds/update'' = Inr m \<longrightarrow>
        updateWebdriver ctx projectRoot s =
          (program_run ctx m fixed_update_config,
           s\<lparr>st_trace := st_trace s @
              [RequireProjectModule (getSystemPath ctx projectRoot)
                 ''protractor/node_modules/webdriver-manager/built/lib/cmds/update'',
               RequireProjectModule (getSystemPath ctx projectRoot)
                 ''webdriver-manager/built/lib/cmds/update'',
               ProgramRun m fixed_update_config]\<rparr>))
   \<and> (\<forall>e e'. requireProjectModule ctx (getSystemPath ctx projectRoot)
              ''protractor/node_modules/webdriver-manager/built/lib/cmds/update'' = Inl e \<and>
            requireProjectModule ctx (getSystemPath ctx projectRoot)
              ''webdriver-manager/built/lib/cmds/update'' = Inl e' \<longrightarrow>
        updateWebdriver ctx projectRoot s =
          (Inl (Error (stripIndents ctx webdriver_not_found_template)),
           s\<lparr>st_trace := st_trace s @
              [RequireProjectModule (getSystemPath ctx projectRoot)
                 ''protractor/node_modules/webdriver-manager/built/lib/cmds/update'',
               RequireProjectModule (getSystemPath ctx projectRoot)
                 ''webdriver-manager/built/lib/cmds/update'']\<rparr>))"
  unfolding updateWebdriver_def nested_import
  by (simp add: rx_defs Let_def webdriverDeepImport_def)

theorem updateWebdriver_probes_two_layouts_witness:
  "requireProjectModule npm_context (getSystemPath npm_context ''/ws/app'')
     ''protractor/node_modules/webdriver-manager/built/lib/cmds/update'' =
     Inr ''module at /ws/app/protractor/node_modules/webdriver-manager/built/lib/cmds/update''
   \<and> updateWebdriver npm_context ''/ws/app'' example_state =
     (Inr (),
      \<lparr>st_options = example_options,
       st_trace =
         [RequireProjectModule ''/ws/app''
            ''protractor/node_modules/webdriver-manager/built/lib/cmds/update'',
          ProgramRun
            ''module at /ws/app/protractor/node_modules/webdriver-manager/built/lib/cmds/update''
            \<lparr>standalone = False, gecko = False, quiet = True\<rparr>]\<rparr>)
   \<and> requireProjectModule example_context (getSystemPath example_context ''/ws/app'')
       ''protractor/node_modules/webdriver-manager/built/lib/cmds/update'' =
       Inl (Error ''Cannot find module'')
   \<and> requireProjectModule example_context (getSystemPath example_context ''/ws/app'')
       ''webdriver-manager/built/lib/cmds/update'' = Inr ''update''
   \<and> updateWebdriver example_context ''/ws/app'' example_state =
     (Inr (),
      \<lparr>st_options = example_options,
       st_trace =
         [RequireProjectModule ''/ws/app''
            ''protractor/node_modules/webdriver-manager/built/lib/cmds/update'',
          RequireProjectModule ''/ws/app'' ''webdriver-manager/built/lib/cmds/update'',
          ProgramRun ''update'' \<lparr>standalone = False, gecko = False, quiet = True\<rparr>]\<rparr>)
   \<and> requireProjectModule no_webdriver_context (getSystemPath no_webdriver_context ''/ws/app'')
       ''protractor/node_modules/webdriver-manager/built/lib/cmds/update'' =
       Inl (Error ''Cannot find module'')
   \<and> requireProjectModule no_webdriver_context (getSystemPath no_webdriver_context ''/ws/app'')
       ''webdriver-manager/built/lib/cmds/update'' = Inl (Error ''Cannot find module'')
   \<and> updateWebdriver no_webdriver_context ''/ws/app'' example_state =
     (Inl (Error (''Cannot automatically find webdriver-manager to update.\<newline>''
        @ ''Update webdriver-manager manually and run 'ng e2e --no-webdriver-update' instead.'')),
      \<lparr>st_options = example_options,
       st_trace =
         [RequireProjectModule ''/ws/app''
            ''protractor/node_modules/webdriver-manager/built/lib/cmds/update'',
          RequireProjectModule ''/ws/app'' ''webdriver-manager/built/lib/cmds/update'']\<rparr>)"
proof -
  note th = updateWebdriver_probes_two_layouts
    [where projectRoot = "''/ws/app''" and s = example_state]
  let ?nested = "''protractor/node_modules/webdriver-manager/built/lib/cmds/update''"
  let ?top = "''webdriver-manager/built/lib/cmds/update''"
  have n1: "requireProjectModule npm_context (getSystemPath npm_context ''/ws/app'') ?nested =
      Inr ''module at /ws/app/protractor/node_modules/webdriver-manager/built/lib/cmds/update''"
    by code_simp
  have p1: "program_run npm_context m c = Inr ()" for m c
    by (simp add: npm_context_def example_context_def)
  have g1: "getSystemPath npm_context ''/ws/app'' = ''/ws/app''"
    by (simp add: npm_context_def example_context_def)
  have 1: "updateWebdriver npm_context ''/ws/app'' example_state =
     (Inr (),
      \<lparr>st_options = example_options,
       st_trace =
         [RequireProjectModule ''/ws/app'' ?nested,
          ProgramRun
            ''module at /ws/app/protractor/node_modules/webdriver-manager/built/lib/cmds/update''
            \<lparr>standalone = False, gecko = False, quiet = True\<rparr>]\<rparr>)"
    using th [where ctx = npm_context, THEN conjunct1, rule_format, OF n1]
    by (simp add: p1 g1 example_state_def fixed_update_config_def)
  have n2: "requireProjectModule example_context (getSystemPath example_context ''/ws/app'') ?nested =
      Inl (Error ''Cannot find module'') \<and>
      requireProjectModule example_context (getSystemPath example_context ''/ws/app'') ?top =
      Inr ''update''"
    by code_simp
  have p2: "program_run example_context m c = Inr ()" for m c
    by (simp add: example_context_def)
  have g2: "getSystemPath example_context ''/ws/app'' = ''/ws/app''"
    by (simp add: example_context_def)
  have 2: "updateWebdriver example_context ''/ws/app'' example_state =
     (Inr (),
      \<lparr>st_options = example_options,
       st_trace =
         [RequireProjectModule ''/ws/app'' ?nested,
          RequireProjectModule ''/ws/app'' ?top,
          ProgramRun ''update'' \<lparr>standalone = False, gecko = False, quiet = True\<rparr>]\<rparr>)"
    using th [where ctx = example_context, THEN conjunct2, THEN conjunct1, rule_format, OF n2]
    by (simp add: p2 g2 example_state_def fixed_update_config_def)
  have n3: "requireProjectModule no_webdriver_context (getSystemPath no_webdriver_context ''/ws/app'')
        ?nested = Inl (Error ''Cannot find module'') \<and>
      requireProjectModule no_webdriver_context (getSystemPath no_webdriver_context ''/ws/app'')
        ?top = Inl (Error ''Cannot find module'')"
    by (simp add: no_webdriver_context_def)
  have m3: "stripIndents no_webdriver_context webdriver_not_found_template =
      ''Cannot automatically find webdriver-manager to update.\<newline>''
        @ ''Update webdriver-manager manually and run 'ng e2e --no-webdriver-update' instead.''"
    by code_simp
  have g3: "getSystemPath no_webdriver_context ''/ws/app'' = ''/ws/app''"
    by (simp add: no_webdriver_context_def example_context_def)
  have 3: "updateWebdriver no_webdriver_context ''/ws/app'' example_state =
     (Inl (Error (''Cannot automatically find webdriver-manager to update.\<newline>''
        @ ''Update webdriver-manager manually and run 'ng e2e --no-webdriver-update' instead.'')),
      \<lparr>st_options = example_options,
       st_trace =
         [RequireProjectModule ''/ws/app'' ?nested,
          RequireProjectModule ''/ws/app'' ?top]\<rparr>)"
    using th [where ctx = no_webdriver_context, THEN conjunct2, THEN conjunct2, rule_format, OF n3]
    by (simp add: m3 g3 example_state_def)
  show ?thesis
    using n1 1 n2 2 n3 3 by blast
qed

subsection \<open>The arguments of Protractor\<close>

text \<open>
  C8. The Protractor stage calls \<^verbatim>\<open>runModuleAsObservableFork\<close> once, in the system path of
  the workspace root, on the export \<^verbatim>\<open>init\<close> of \<^verbatim>\<open>protractor/built/launcher\<close>, with two
  arguments: the system path of the Protractor configuration file resolved against the
  workspace root, and an object of four keys, \<^verbatim>\<open>elementExplorer\<close> as in the options,
  \<^verbatim>\<open>baseUrl\<close> as the options hold it at that moment, \<^verbatim>\<open>specs\<close> as in the options when the
  list is not empty and \<^verbatim>\<open>undefined\<close> when it is, and \<^verbatim>\<open>suite\<close> as in the options
  (\<^verbatim>\<open>undefined\<close> when absent). In a run, these are the options given to \<^verbatim>\<open>run\<close>, but for
  \<^verbatim>\<open>baseUrl\<close>, which is the one that the run ends with: the dev-server stage may have
  assigned it.
\<close>

theorem protractor_configuration:
  "runProtractor ctx w s =
     (runModuleAsObservableFork ctx (getSystemPath ctx w) ''protractor/built/launcher'' ''init''
        (getSystemPath ctx (resolve ctx w (normalize ctx (protractorConfig (st_options s)))))
        \<lparr>apc_elementExplorer = elementExplorer (st_options s),
         apc_baseUrl = baseUrl (st_options s),
         apc_specs = (if specs (st_options s) = [] then None else Some (specs (st_options s))),
         apc_suite = suite (st_options s)\<rparr>,
      s\<lparr>st_trace := st_trace s @
         [RunModuleAsObservableFork (getSystemPath ctx w) ''protractor/built/launcher'' ''init''
            (getSystemPath ctx (resolve ctx w (normalize ctx (protractorConfig (st_options s)))))
            \<lparr>apc_elementExplorer = elementExplorer (st_options s),
             apc_baseUrl = baseUrl (st_options s),
             apc_specs = (if specs (st_options s) = [] then None else Some (specs (st_options s))),
             apc_suite = suite (st_options s)\<rparr>]\<rparr>)
   \<and> (\<forall>cwd m x p a.
         RunModuleAsObservableFork cwd m x p a \<in> set (st_trace (snd (run ctx bc))) \<longrightarrow>
         cwd = getSystemPath ctx (workspace_root ctx) \<and> m = ''protractor/built/launcher'' \<and>
         x = ''init'' \<and>
         p = getSystemPath ctx
               (resolve ctx (workspace_root ctx) (normalize ctx (protractorConfig (options bc)))) \<and>
         a = \<lparr>apc_elementExplorer = elementExplorer (options bc),
              apc_baseUrl = baseUrl (st_options (snd (run ctx bc))),
              apc_specs = (if specs (options bc) = [] then None else Some (specs (options bc))),
              apc_suite = suite (options bc)\<rparr>)"
proof (rule conjI)
  show "runProtractor ctx w s =
     (runModuleAsObservableFork ctx (getSystemPath ctx w) ''protractor/built/launcher'' ''init''
        (getSystemPath ctx (resolve ctx w (normalize ctx (protractorConfig (st_options s)))))
        \<lparr>apc_elementExplorer = elementExplorer (st_options s),
         apc_baseUrl = baseUrl (st_options s),
         apc_specs = (if specs (st_options s) = [] then None else Some (specs (st_options s))),
         apc_suite = suite (st_options s)\<rparr>,
      s\<lparr>st_trace := st_trace s @
         [RunModuleAsObservableFork (getSystemPath ctx w) ''protractor/built/launcher'' ''init''
            (getSystemPath ctx (resolve ctx w (normalize ctx (protractorConfig (st_options s)))))
            \<lparr>apc_elementExplorer = elementExplorer (st_options s),
             apc_baseUrl = baseUrl (st_options s),
             apc_specs = (if specs (st_options s) = [] then None else Some (specs (st_options s))),
             apc_suite = suite (st_options s)\<rparr>]\<rparr>)"
    by (simp add: runProtractor_def rx_defs Let_def additionalProtractorConfig_of_def)
next
  have "cwd = getSystemPath ctx (workspace_root ctx) \<and> m = ''protractor/built/launcher'' \<and>
         x = ''init'' \<and>
         p = getSystemPath ctx
               (resolve ctx (workspace_root ctx) (normalize ctx (protractorConfig (options bc)))) \<and>
         a = \<lparr>apc_elementExplorer = elementExplorer (options bc),
              apc_baseUrl = baseUrl (st_options (snd (run ctx bc))),
              apc_specs = (if specs (options bc) = [] then None else Some (specs (options bc))),
              apc_suite = suite (options bc)\<rparr>"
    if "RunModuleAsObservableFork cwd m x p a \<in> set (st_trace (snd (run ctx bc)))"
    for cwd m x p a
  proof -
  from that have c: "RunModuleAsObservableFork cwd m x p a =
      protractor_call ctx (st_options (snd (run ctx bc)))"
    by (rule protractor_call_in_run)
  have o: "st_options (snd (run ctx bc)) =
      (options bc)\<lparr>baseUrl := baseUrl (st_options (snd (run ctx bc)))\<rparr>"
    by (rule run_options)
  have "protractor_call ctx (st_options (snd (run ctx bc))) =
      protractor_call ctx ((options bc)\<lparr>baseUrl := baseUrl (st_options (snd (run ctx bc)))\<rparr>)"
    using o by simp
  then have "RunModuleAsObservableFork cwd m x p a =
      protractor_call ctx ((options bc)\<lparr>baseUrl := baseUrl (st_options (snd (run ctx bc)))\<rparr>)"
    using c by simp
  then show ?thesis
    by (simp add: protractor_call_def)
  qed
  then show "\<forall>cwd m x p a.
         RunModuleAsObservableFork cwd m x p a \<in> set (st_trace (snd (run ctx bc))) \<longrightarrow>
         cwd = getSystemPath ctx (workspace_root ctx) \<and> m = ''protractor/built/launcher'' \<and>
         x = ''init'' \<and>
         p = getSystemPath ctx
               (resolve ctx (workspace_root ctx) (normalize ctx (protractorConfig (options bc)))) \<and>
         a = \<lparr>apc_elementExplorer = elementExplorer (options bc),
              apc_baseUrl = baseUrl (st_options (snd (run ctx bc))),
              apc_specs = (if specs (options bc) = [] then None else Some (specs (options bc))),
              apc_suite = suite (options bc)\<rparr>"
    by blast
qed

theorem protractor_configuration_witness:
  "runProtractor example_context ''/ws'' specs_state =
     (Inr \<lparr>success = True, result = None\<rparr>,
      \<lparr>st_options = st_options specs_state,
       st_trace =
         [RunModuleAsObservableFork ''/ws'' ''protractor/built/launcher'' ''init''
            ''/ws/protractor.conf.js''
            \<lparr>apc_elementExplorer = True, apc_baseUrl = ''http://myhost:9000'',
             apc_specs = Some [''src/app.e2e-spec.ts''], apc_suite = Some ''smoke''\<rparr>]\<rparr>)
   \<and> RunModuleAsObservableFork ''/ws'' ''protractor/built/launcher'' ''init''
         ''/ws/protractor.conf.js''
         \<lparr>apc_elementExplorer = False, apc_baseUrl = ''http://localhost:4200'',
          apc_specs = None, apc_suite = None\<rparr>
       \<in> set (st_trace (snd (run example_context example_configuration)))
   \<and> baseUrl (options example_configuration) = []
   \<and> baseUrl (st_options (snd (run example_context example_configuration))) =
       ''http://localhost:4200''"
proof -
  note th = protractor_configuration
  have e: "runModuleAsObservableFork example_context cwd m x p a = Inr \<lparr>success = True, result = None\<rparr>"
    for cwd m x p a
    by (simp add: example_context_def)
  have 1: "runProtractor example_context ''/ws'' specs_state =
     (Inr \<lparr>success = True, result = None\<rparr>,
      \<lparr>st_options = st_options specs_state,
       st_trace =
         [RunModuleAsObservableFork ''/ws'' ''protractor/built/launcher'' ''init''
            ''/ws/protractor.conf.js''
            \<lparr>apc_elementExplorer = True, apc_baseUrl = ''http://myhost:9000'',
             apc_specs = Some [''src/app.e2e-spec.ts''], apc_suite = Some ''smoke''\<rparr>]\<rparr>)"
    using th [where ctx = example_context and w = "''/ws''" and s = specs_state, THEN conjunct1]
    by (simp add: e) (simp add: specs_state_def example_options_def example_context_def)
  have 2: "RunModuleAsObservableFork ''/ws'' ''protractor/built/launcher'' ''init''
         ''/ws/protractor.conf.js''
         \<lparr>apc_elementExplorer = False, apc_baseUrl = ''http://localhost:4200'',
          apc_specs = None, apc_suite = None\<rparr>
       \<in> set (st_trace (snd (run example_context example_configuration)))"
    by code_simp
  have "\<lparr>apc_elementExplorer = False, apc_baseUrl = ''http://localhost:4200'',
          apc_specs = None, apc_suite = None\<rparr> =
        \<lparr>apc_elementExplorer = elementExplorer (options example_configuration),
         apc_baseUrl = baseUrl (st_options (snd (run example_context example_configuration))),
         apc_specs = (if specs (options example_configuration) = [] then None
                      else Some (specs (options example_configuration))),
         apc_suite = suite (options example_configuration)\<rparr>"
    using th [where ctx = example_context and bc = example_configuration, THEN conjunct2] 2
    by blast
  then have 4: "baseUrl (st_options (snd (run example_context example_configuration))) =
       ''http://localhost:4200''"
    by simp
  have 3: "baseUrl (options example_configuration) = []"
    by (simp add: example_configuration_def example_options_def)
  show ?thesis
    using 1 2 3 4 by blast
qed

subsection \<open>The configuration of the webdriver update\<close>

text \<open>
  C9. Every call of \<^verbatim>\<open>program.run\<close> in a run, whatever the options given to \<^verbatim>\<open>run\<close>, has the
  argument \<^verbatim>\<open>{standalone: false, gecko: false, quiet: true}\<close>; and whenever one of the two
  probes of the webdriver stage finds the module, the stage ends with the call of its
  \<^verbatim>\<open>program.run\<close> on that argument, whose answer is the answer of the stage.
\<close>

theorem webdriver_update_with_fixed_configuration:
  "(\<forall>m c. ProgramRun m c \<in> set (st_trace (snd (run ctx bc))) \<longrightarrow>
       c = \<lparr>standalone = False, gecko = False, quiet = True\<rparr>)
   \<and> (\<forall>m. requireProjectModule ctx (getSystemPath ctx projectRoot)
              ''protractor/node_modules/webdriver-manager/built/lib/cmds/update'' = Inr m
            \<or> (\<exists>e. requireProjectModule ctx (getSystemPath ctx projectRoot)
                    ''protractor/node_modules/webdriver-manager/built/lib/cmds/update'' = Inl e) \<and>
              requireProjectModule ctx (getSystemPath ctx projectRoot)
                ''webdriver-manager/built/lib/cmds/update'' = Inr m \<longrightarrow>
        fst (updateWebdriver ctx projectRoot s) =
          program_run ctx m \<lparr>standalone = False, gecko = False, quiet = True\<rparr> \<and>
        last (st_trace (snd (updateWebdriver ctx projectRoot s))) =
          ProgramRun m \<lparr>standalone = False, gecko = False, quiet = True\<rparr>)"
proof (rule conjI)
  show "\<forall>m c. ProgramRun m c \<in> set (st_trace (snd (run ctx bc))) \<longrightarrow>
       c = \<lparr>standalone = False, gecko = False, quiet = True\<rparr>"
    using update_calls_in_run [of _ ctx bc] by (fastforce simp: fixed_update_config_def)
next
  show "\<forall>m. requireProjectModule ctx (getSystemPath ctx projectRoot)
              ''protractor/node_modules/webdriver-manager/built/lib/cmds/update'' = Inr m
            \<or> (\<exists>e. requireProjectModule ctx (getSystemPath ctx projectRoot)
                    ''protractor/node_modules/webdriver-manager/built/lib/cmds/update'' = Inl e) \<and>
              requireProjectModule ctx (getSystemPath ctx projectRoot)
                ''webdriver-manager/built/lib/cmds/update'' = Inr m \<longrightarrow>
        fst (updateWebdriver ctx projectRoot s) =
          program_run ctx m \<lparr>standalone = False, gecko = False, quiet = True\<rparr> \<and>
        last (st_trace (snd (updateWebdriver ctx projectRoot s))) =
          ProgramRun m \<lparr>standalone = False, gecko = False, quiet = True\<rparr>"
    by (auto simp: updateWebdriver_def rx_defs Let_def webdriverDeepImport_def
        fixed_update_config_def)
qed

theorem webdriver_update_with_fixed_configuration_witness:
  "ProgramRun ''update'' \<lparr>standalone = False, gecko = False, quiet = True\<rparr>
     \<in> set (st_trace (snd (run example_context example_configuration)))
   \<and> requireProjectModule npm_context (getSystemPath npm_context ''/ws/app'')
       ''protractor/node_modules/webdriver-manager/built/lib/cmds/update'' =
       Inr ''module at /ws/app/protractor/node_modules/webdriver-manager/built/lib/cmds/update''
   \<and> last (st_trace (snd (updateWebdriver npm_context ''/ws/app'' example_state))) =
       ProgramRun ''module at /ws/app/protractor/node_modules/webdriver-manager/built/lib/cmds/update''
         \<lparr>standalone = False, gecko = False, quiet = True\<rparr>
   \<and> requireProjectModule example_context (getSystemPath example_context ''/ws/app'')
       ''webdriver-manager/built/lib/cmds/update'' = Inr ''update''
   \<and> last (st_trace (snd (updateWebdriver example_context ''/ws/app'' example_state))) =
       ProgramRun ''update'' \<lparr>standalone = False, gecko = False, quiet = True\<rparr>"
proof -
  note th = webdriver_update_with_fixed_configuration
  have "ProgramRun ''update'' fixed_update_config
          \<in> set (st_trace (snd (run example_context example_configuration)))"
    by code_simp
  moreover from this have "fixed_update_config = \<lparr>standalone = False, gecko = False, quiet = True\<rparr>"
    using th [where ctx = example_context and bc = example_configuration, THEN conjunct1]
    by blast
  ultimately have 1: "ProgramRun ''update'' \<lparr>standalone = False, gecko = False, quiet = True\<rparr>
     \<in> set (st_trace (snd (run example_context example_configuration)))"
    by simp
  have n2: "requireProjectModule npm_context (getSystemPath npm_context ''/ws/app'')
       ''protractor/node_modules/webdriver-manager/built/lib/cmds/update'' =
       Inr ''module at /ws/app/protractor/node_modules/webdriver-manager/built/lib/cmds/update''"
    by code_simp
  have 2: "last (st_trace (snd (updateWebdriver npm_context ''/ws/app'' example_state))) =
       ProgramRun ''module at /ws/app/protractor/node_modules/webdriver-manager/built/lib/cmds/update''
         \<lparr>standalone = False, gecko = False, quiet = True\<rparr>"
    using th [where ctx = npm_context and projectRoot = "''/ws/app''" and s = example_state,
        THEN conjunct2] n2
    by blast
  have n3: "(\<exists>e. requireProjectModule example_context (getSystemPath example_context ''/ws/app'')
       ''protractor/node_modules/webdriver-manager/built/lib/cmds/update'' = Inl e)"
    by (simp add: example_context_def webdriverDeepImport_def)
  have n3': "requireProjectModule example_context (getSystemPath example_context ''/ws/app'')
       ''webdriver-manager/built/lib/cmds/update'' = Inr ''update''"
    by (simp add: example_context_def webdriverDeepImport_def)
  have 3: "last (st_trace (snd (updateWebdriver example_context ''/ws/app'' example_state))) =
       ProgramRun ''update'' \<lparr>standalone = False, gecko = False, quiet = True\<rparr>"
    using th [where ctx = example_context and projectRoot = "''/ws/app''" and s = example_state,
        THEN conjunct2] n3 n3'
    by blast
  show ?thesis
    using 1 n2 2 n3' 3 by blast
qed

subsection \<open>Truthiness of the two options\<close>

text \<open>
  C10. The check of the options and the condition of the first stage test truthiness.
  With \<^verbatim>\<open>devServerTarget\<close> a string that is not empty and \<^verbatim>\<open>baseUrl\<close> the empty string,
  \<^verbatim>\<open>run\<close> does not throw and the dev-server stage runs: the trace starts with the lookup of
  the builder configuration of the target. With \<^verbatim>\<open>devServerTarget\<close> the empty string,
  whatever \<^verbatim>\<open>baseUrl\<close> is, \<^verbatim>\<open>run\<close> does not throw and the dev-server stage is skipped: no
  effect of the first stage, the options stay as given, and the run is the webdriver
  stage and the Protractor stage from the initial state.
\<close>

theorem option_check_by_truthiness:
  "(\<forall>t. devServerTarget (options bc) = Some t \<and> t \<noteq> [] \<and> baseUrl (options bc) = [] \<longrightarrow>
       (\<forall>e. fst (run ctx bc) \<noteq> Throws e) \<and>
       (\<exists>tr. st_trace (snd (run ctx bc)) =
              GetBuilderConfiguration (targetSpec_of (options bc) t) # tr))
   \<and> (devServerTarget (options bc) = Some [] \<longrightarrow>
       (\<forall>e. fst (run ctx bc) \<noteq> Throws e) \<and>
       (\<forall>x\<in>set (st_trace (snd (run ctx bc))). stage_of x \<noteq> 1) \<and>
       st_options (snd (run ctx bc)) = options bc \<and>
       run ctx bc =
         (case webdriverStage ctx (projectRoot_of ctx bc) (initial_state bc) of
            (Inl e, s2) \<Rightarrow> (Fails e, s2)
          | (Inr _, s2) \<Rightarrow> subscribe (runProtractor ctx (workspace_root ctx)) s2))"
proof -
  have first: "(\<forall>e. fst (run ctx bc) \<noteq> Throws e) \<and>
       (\<exists>tr. st_trace (snd (run ctx bc)) =
              GetBuilderConfiguration (targetSpec_of (options bc) t) # tr)"
    if a: "devServerTarget (options bc) = Some t \<and> t \<noteq> [] \<and> baseUrl (options bc) = []" for t
  proof -
    have nc: "\<not> (truthy_opt (devServerTarget (options bc)) \<and> truthy (baseUrl (options bc)))"
      using a by (simp add: truthy_def)
    have ty: "truthy_opt (devServerTarget (st_options (initial_state bc)))"
      using a by (simp add: truthy_opt_def truthy_def initial_state_def)
    from run_trace [OF nc, of ctx] obtain tr2 tr3 where
      tr: "st_trace (snd (run ctx bc)) =
             st_trace (snd (devServerStage ctx (initial_state bc))) @ tr2 @ tr3"
      and r: "case fst (run ctx bc) of Throws _ \<Rightarrow> False | Fails _ \<Rightarrow> True
              | Emits _ \<Rightarrow> length tr3 = 1"
      by blast
    have 1: "\<forall>e. fst (run ctx bc) \<noteq> Throws e"
      using r by (auto split: RunResult.splits)
    from startDevServer_first_effect [of "initial_state bc" t ctx] a
    obtain tr1 where "st_trace (snd (startDevServer ctx (initial_state bc))) =
        GetBuilderConfiguration (targetSpec_of (options bc) t) # tr1"
      by (auto simp: initial_state_def)
    then have "\<exists>tr. st_trace (snd (run ctx bc)) =
                GetBuilderConfiguration (targetSpec_of (options bc) t) # tr"
      using tr by (simp add: devServerStage_startDevServer [OF ty])
    with 1 show ?thesis by blast
  qed
  have second: "(\<forall>e. fst (run ctx bc) \<noteq> Throws e) \<and>
       (\<forall>x\<in>set (st_trace (snd (run ctx bc))). stage_of x \<noteq> 1) \<and>
       st_options (snd (run ctx bc)) = options bc \<and>
       run ctx bc =
         (case webdriverStage ctx (projectRoot_of ctx bc) (initial_state bc) of
            (Inl e, s2) \<Rightarrow> (Fails e, s2)
          | (Inr _, s2) \<Rightarrow> subscribe (runProtractor ctx (workspace_root ctx)) s2)"
    if a: "devServerTarget (options bc) = Some []"
  proof -
    have nt: "\<not> truthy_opt (devServerTarget (options bc))"
      using a by (simp add: truthy_opt_def truthy_def)
    then have nc: "\<not> (truthy_opt (devServerTarget (options bc)) \<and> truthy (baseUrl (options bc)))"
      by simp
    have sk: "devServerStage ctx (initial_state bc) = (Inr (), initial_state bc)"
      using nt by (simp add: devServerStage_skip initial_state_def)
    from run_trace [OF nc, of ctx] obtain tr2 tr3 where
      tr: "st_trace (snd (run ctx bc)) =
             st_trace (snd (devServerStage ctx (initial_state bc))) @ tr2 @ tr3"
      and s2: "\<forall>x\<in>set tr2. stage_of x = 2" and s3: "\<forall>x\<in>set tr3. stage_of x = 3"
      and o: "st_options (snd (run ctx bc)) = st_options (snd (devServerStage ctx (initial_state bc)))"
      and r: "case fst (run ctx bc) of Throws _ \<Rightarrow> False | Fails _ \<Rightarrow> True
              | Emits _ \<Rightarrow> length tr3 = 1"
      by blast
    have 1: "\<forall>e. fst (run ctx bc) \<noteq> Throws e"
      using r by (auto split: RunResult.splits)
    have 2: "\<forall>x\<in>set (st_trace (snd (run ctx bc))). stage_of x \<noteq> 1"
      using tr s2 s3 sk by (auto simp: initial_state_def)
    have 3: "st_options (snd (run ctx bc)) = options bc"
      using o sk by (simp add: initial_state_def)
    have 4: "run ctx bc =
           (case webdriverStage ctx (projectRoot_of ctx bc) (initial_state bc) of
              (Inl e, s2) \<Rightarrow> (Fails e, s2)
            | (Inr _, s2) \<Rightarrow> subscribe (runProtractor ctx (workspace_root ctx)) s2)"
      using sk by (simp add: run_unfold [OF nc])
    from 1 2 3 4 show ?thesis by blast
  qed
  from first second show ?thesis by blast
qed

theorem option_check_by_truthiness_witness:
  "devServerTarget (options example_configuration) = Some ''app:serve:production''
   \<and> baseUrl (options example_configuration) = []
   \<and> fst (run example_context example_configuration) = Emits \<lparr>success = True, result = None\<rparr>
   \<and> hd (st_trace (snd (run example_context example_configuration))) =
       GetBuilderConfiguration
         \<lparr>project = Some ''app'', target = Some ''serve'', configuration = Some ''production'',
          overrides = \<lparr>ds_watch = Some False, ds_host = Some ''localhost'', ds_port = None,
            ds_publicHost = None, ds_ssl = None\<rparr>\<rparr>
   \<and> devServerTarget (options empty_target_configuration) = Some []
   \<and> baseUrl (options empty_target_configuration) = ''http://myhost:9000''
   \<and> fst (run example_context empty_target_configuration) = Emits \<lparr>success = True, result = None\<rparr>
   \<and> map stage_of (st_trace (snd (run example_context empty_target_configuration))) = [2, 2, 2, 3]
   \<and> st_options (snd (run example_context empty_target_configuration)) =
       options empty_target_configuration"
proof -
  note th = option_check_by_truthiness
  have a1: "devServerTarget (options example_configuration) = Some ''app:serve:production'' \<and>
      ''app:serve:production'' \<noteq> [] \<and> baseUrl (options example_configuration) = []"
    by (simp add: example_configuration_def example_options_def)
  from th [where ctx = example_context and bc = example_configuration, THEN conjunct1,
      rule_format, OF a1]
  obtain tr where tr: "st_trace (snd (run example_context example_configuration)) =
      GetBuilderConfiguration
        (targetSpec_of (options example_configuration) ''app:serve:production'') # tr"
    by blast
  have ts: "targetSpec_of (options example_configuration) ''app:serve:production'' =
      \<lparr>project = Some ''app'', target = Some ''serve'', configuration = Some ''production'',
          overrides = \<lparr>ds_watch = Some False, ds_host = Some ''localhost'', ds_port = None,
            ds_publicHost = None, ds_ssl = None\<rparr>\<rparr>"
    by code_simp
  have 1: "hd (st_trace (snd (run example_context example_configuration))) =
       GetBuilderConfiguration
         \<lparr>project = Some ''app'', target = Some ''serve'', configuration = Some ''production'',
          overrides = \<lparr>ds_watch = Some False, ds_host = Some ''localhost'', ds_port = None,
            ds_publicHost = None, ds_ssl = None\<rparr>\<rparr>"
    using tr ts by simp
  have r1: "fst (run example_context example_configuration) = Emits \<lparr>success = True, result = None\<rparr>"
    by code_simp
  have a2: "devServerTarget (options empty_target_configuration) = Some []"
    by (simp add: empty_target_configuration_def)
  have b2: "baseUrl (options empty_target_configuration) = ''http://myhost:9000''"
    by (simp add: empty_target_configuration_def)
  have 2: "st_options (snd (run example_context empty_target_configuration)) =
       options empty_target_configuration"
    using th [where ctx = example_context and bc = empty_target_configuration, THEN conjunct2] a2
    by blast
  have r2: "fst (run example_context empty_target_configuration) =
      Emits \<lparr>success = True, result = None\<rparr>"
    by code_simp
  have m2: "map stage_of (st_trace (snd (run example_context empty_target_configuration))) =
      [2, 2, 2, 3]"
    by code_simp
  show ?thesis
    using a1 1 r1 a2 b2 2 r2 m2 by blast
qed

end
